theory Spec2Isabelle
  imports Main
begin

section \<open>The JavaScript values the client handles\<close>

text \<open>
  The client of \<^verbatim>\<open>services/api\<close> and \<^verbatim>\<open>services/socket.js\<close> passes JSON-like
  values around: request bodies, header objects, responses, error objects. They are
  modelled by one datatype. An object is an association list in property order, an array
  a list. Strings are lists of \<^typ>\<open>char\<close>. Numbers are the integers, kept exact: the
  model agrees with the runtime's doubles on the integers of magnitude up to \<open>2 ^ 53\<close>,
  which a double holds and prints exactly; larger integers and fractions are outside it.
\<close>

datatype jsval =
    JUndefined
  | JNull
  | JBool bool
  | JNum int
  | JStr string
  | JArr "jsval list"
  | JObj "(string \<times> jsval) list"

text \<open>
  An asynchronous function settles with a value: \<open>Inr v\<close> when its promise resolves
  with \<open>v\<close> (the function returns), \<open>Inl e\<close> when it rejects with \<open>e\<close> (the function
  throws). \<open>await\<close> on \<open>Inl e\<close> throws \<open>e\<close> in the caller.
\<close>

type_synonym outcome = "jsval + jsval"

text \<open>Truthiness: what \<^verbatim>\<open>if (v)\<close>, \<^verbatim>\<open>!v\<close> and \<^verbatim>\<open>v || w\<close> test.\<close>

fun truthy :: "jsval \<Rightarrow> bool" where
  "truthy JUndefined = False"
| "truthy JNull = False"
| "truthy (JBool b) = b"
| "truthy (JNum n) = (n \<noteq> 0)"
| "truthy (JStr s) = (s \<noteq> [])"
| "truthy (JArr xs) = True"
| "truthy (JObj fs) = True"

fun nullish :: "jsval \<Rightarrow> bool" where
  "nullish JUndefined = True"
| "nullish JNull = True"
| "nullish v = False"

text \<open>\<^verbatim>\<open>a || b\<close>\<close>

definition js_or :: "jsval \<Rightarrow> jsval \<Rightarrow> jsval" where
  "js_or a b = (if truthy a then a else b)"

text \<open>
  Errors the runtime itself raises. Only their kind matters to the client, which reads
  \<^verbatim>\<open>.status\<close> and \<^verbatim>\<open>.data\<close> of what it catches: neither is a property of these.
\<close>

definition TypeError :: "string \<Rightarrow> jsval" where
  "TypeError msg = JObj [(''name'', JStr ''TypeError''), (''message'', JStr msg)]"

definition SyntaxError :: "string \<Rightarrow> jsval" where
  "SyntaxError msg = JObj [(''name'', JStr ''SyntaxError''), (''message'', JStr msg)]"

text \<open>
  Property reads. \<open>member v k\<close> is \<^verbatim>\<open>v?.k\<close>: \<^verbatim>\<open>undefined\<close> on \<^verbatim>\<open>null\<close> and
  \<^verbatim>\<open>undefined\<close>, the property otherwise. The client reads the properties \<^verbatim>\<open>data\<close>,
  \<^verbatim>\<open>message\<close>, \<^verbatim>\<open>status\<close>, \<^verbatim>\<open>token\<close>, \<^verbatim>\<open>me\<close>, \<^verbatim>\<open>username\<close>, \<^verbatim>\<open>country\<close>,
  \<^verbatim>\<open>country_code\<close> and \<^verbatim>\<open>isp\<close>, which no string, number, boolean or array has.
  \<open>read v k\<close> is \<^verbatim>\<open>v.k\<close>, which throws a TypeError on \<^verbatim>\<open>null\<close> and \<^verbatim>\<open>undefined\<close>.
\<close>

fun member :: "jsval \<Rightarrow> string \<Rightarrow> jsval" where
  "member (JObj fs) k = (case map_of fs k of Some v \<Rightarrow> v | None \<Rightarrow> JUndefined)"
| "member v k = JUndefined"

definition read :: "jsval \<Rightarrow> string \<Rightarrow> outcome" where
  "read v k = (if nullish v then Inl (TypeError k) else Inr (member v k))"

text \<open>
  Writing a property of an object literal: a key already present keeps its place and
  takes the new value, a new key goes last.
\<close>

fun put :: "string \<Rightarrow> jsval \<Rightarrow> (string \<times> jsval) list \<Rightarrow> (string \<times> jsval) list" where
  "put k v [] = [(k, v)]"
| "put k v ((k', v') # fs) = (if k = k' then (k, v) # fs else (k', v') # put k v fs)"

subsection \<open>Conversion to text\<close>

fun digit :: "nat \<Rightarrow> char" where
  "digit n = char_of (48 + n)"

fun decimal :: "nat \<Rightarrow> string" where
  "decimal n = (if n < 10 then [digit n] else decimal (n div 10) @ [digit (n mod 10)])"

fun join :: "string \<Rightarrow> string list \<Rightarrow> string" where
  "join sep [] = []"
| "join sep [x] = x"
| "join sep (x # y # ys) = x @ sep @ join sep (y # ys)"

text \<open>
  \<open>toString\<close> is what a template literal and \<^verbatim>\<open>localStorage.setItem\<close> apply to a
  value. An array joins its elements with commas, \<^verbatim>\<open>null\<close> and \<^verbatim>\<open>undefined\<close>
  elements giving the empty string; a plain object gives \<^verbatim>\<open>[object Object]\<close>.
\<close>

fun toString :: "jsval \<Rightarrow> string" where
  "toString JUndefined = ''undefined''"
| "toString JNull = ''null''"
| "toString (JBool b) = (if b then ''true'' else ''false'')"
| "toString (JNum n) = (if n < 0 then CHR ''-'' # decimal (nat (- n)) else decimal (nat n))"
| "toString (JStr s) = s"
| "toString (JArr xs) = join '','' (map (\<lambda>x. if nullish x then [] else toString x) xs)"
| "toString (JObj fs) = ''[object Object]''"

text \<open>\<^verbatim>\<open>toUpperCase\<close>, \<^verbatim>\<open>toLowerCase\<close> and \<^verbatim>\<open>trim\<close>, on ASCII text.\<close>

definition toUpperCase :: "string \<Rightarrow> string" where
  "toUpperCase s =
     map (\<lambda>c. let n = of_char c :: nat in if 97 \<le> n \<and> n \<le> 122 then char_of (n - 32) else c) s"

definition toLowerCase :: "string \<Rightarrow> string" where
  "toLowerCase s =
     map (\<lambda>c. let n = of_char c :: nat in if 65 \<le> n \<and> n \<le> 90 then char_of (n + 32) else c) s"

definition is_space :: "char \<Rightarrow> bool" where
  "is_space c = (of_char c \<in> {9, 10, 11, 12, 13, 32 :: nat})"

definition trim :: "string \<Rightarrow> string" where
  "trim s = rev (dropWhile is_space (rev (dropWhile is_space s)))"

text \<open>
  A string method called on a value: a TypeError unless the value is a string
  (\<^verbatim>\<open>undefined.toLowerCase()\<close>, \<^verbatim>\<open>(5).trim()\<close>).
\<close>

fun str_method :: "string \<Rightarrow> (string \<Rightarrow> string) \<Rightarrow> jsval \<Rightarrow> jsval + string" where
  "str_method name f (JStr s) = Inr (f s)"
| "str_method name f v = Inl (TypeError name)"

subsection \<open>JSON text\<close>

definition hex_digit :: "nat \<Rightarrow> char" where
  "hex_digit n = (if n < 10 then char_of (48 + n) else char_of (87 + n))"

text \<open>One character inside a quoted JSON string, as \<^verbatim>\<open>JSON.stringify\<close> writes it.\<close>

definition quote_char :: "char \<Rightarrow> string" where
  "quote_char c =
     (let n = of_char c :: nat in
      if n = 8 then [CHR 0x5C, CHR ''b''] else if n = 9 then [CHR 0x5C, CHR ''t''] else if n = 10 then [CHR 0x5C, CHR ''n'']
      else if n = 12 then [CHR 0x5C, CHR ''f''] else if n = 13 then [CHR 0x5C, CHR ''r'']
      else if n = 34 then [CHR 0x5C, c] else if n = 92 then [c, c]
      else if n < 32 then [CHR 0x5C, CHR ''u'', CHR ''0'', CHR ''0'', hex_digit (n div 16), hex_digit (n mod 16)]
      else [c])"

definition quote :: "string \<Rightarrow> string" where
  "quote s = [CHR 0x22] @ concat (map quote_char s) @ [CHR 0x22]"

fun json_text :: "jsval \<Rightarrow> string option" where
  "json_text JUndefined = None"
| "json_text JNull = Some ''null''"
| "json_text (JBool b) = Some (toString (JBool b))"
| "json_text (JNum n) = Some (toString (JNum n))"
| "json_text (JStr s) = Some (quote s)"
| "json_text (JArr xs) =
     Some (''['' @ join '','' (map (\<lambda>x. case json_text x of None \<Rightarrow> ''null'' | Some t \<Rightarrow> t) xs) @ '']'')"
| "json_text (JObj fs) =
     Some (''{'' @ join '','' (concat (map (\<lambda>(k, v). case json_text v of None \<Rightarrow> [] | Some t \<Rightarrow> [quote k @ '':'' @ t]) fs)) @ ''}'')"

definition JSON_stringify :: "jsval \<Rightarrow> jsval" where
  "JSON_stringify v = (case json_text v of None \<Rightarrow> JUndefined | Some t \<Rightarrow> JStr t)"


text \<open>
  \<^verbatim>\<open>JSON.parse\<close> on the JSON of the value model: objects, arrays, strings with the
  two-character escapes, integer literals, \<^verbatim>\<open>true\<close>, \<^verbatim>\<open>false\<close>, \<^verbatim>\<open>null\<close>.
  A \<^verbatim>\<open>\u\<close> escape and a number with a fraction or an exponent have no value in the
  model and are not accepted, although the runtime accepts them, and an integer literal
  beyond \<open>2 ^ 53\<close> is kept exact where the runtime rounds it. \<open>None\<close> is the
  SyntaxError. The statements below that depend on the parser's result apply it to the
  sign-in credentials only, as an object and as text, where none of this arises.
\<close>

definition json_ws :: "char \<Rightarrow> bool" where
  "json_ws c = (c = CHR '' '' \<or> c = CHR 0x09 \<or> c = CHR 0x0A \<or> c = CHR 0x0D)"

definition skip_ws :: "string \<Rightarrow> string" where
  "skip_ws cs = dropWhile json_ws cs"

definition is_digit :: "char \<Rightarrow> bool" where
  "is_digit c = (48 \<le> (of_char c :: nat) \<and> (of_char c :: nat) \<le> 57)"

definition unescape :: "char \<Rightarrow> char option" where
  "unescape e =
     (if e = CHR 0x22 \<or> e = CHR 0x5C \<or> e = CHR ''/'' then Some e
      else if e = CHR ''b'' then Some (CHR 0x08)
      else if e = CHR ''f'' then Some (CHR 0x0C)
      else if e = CHR ''n'' then Some (CHR 0x0A)
      else if e = CHR ''r'' then Some (CHR 0x0D)
      else if e = CHR ''t'' then Some (CHR 0x09)
      else None)"

text \<open>The rest of a string literal, after its opening quote.\<close>

fun pstring :: "string \<Rightarrow> string \<Rightarrow> (string \<times> string) option" where
  "pstring acc [] = None"
| "pstring acc (c # cs) =
     (if c = CHR 0x22 then Some (rev acc, cs)
      else if c = CHR 0x5C then
        (case cs of
           [] \<Rightarrow> None
         | e # cs' \<Rightarrow> (case unescape e of None \<Rightarrow> None | Some ch \<Rightarrow> pstring (ch # acc) cs'))
      else if (of_char c :: nat) < 32 then None
      else pstring (c # acc) cs)"

text \<open>An integer literal: an optional minus, then 0 or a digit string without leading 0.\<close>

definition pnumber :: "string \<Rightarrow> (jsval \<times> string) option" where
  "pnumber cs =
     (let neg = (cs \<noteq> [] \<and> hd cs = CHR ''-'');
          body = (if neg then tl cs else cs);
          ds = takeWhile is_digit body;
          rest = dropWhile is_digit body;
          n = foldl (\<lambda>a c. 10 * a + (int (of_char c) - 48)) 0 ds
      in if ds = [] \<or> (length ds > 1 \<and> hd ds = CHR ''0'') then None
         else if rest \<noteq> [] \<and> hd rest \<in> set ''.eE'' then None
         else Some (JNum (if neg then - n else n), rest))"

text \<open>
  Recursive descent. The first argument bounds the depth of the recursion;
  \<open>JSON_parse\<close> gives it twice the length of the text, and an array or object takes two
  levels for the two brackets it is written with.
\<close>

fun pvalue :: "nat \<Rightarrow> string \<Rightarrow> (jsval \<times> string) option"
  and pelements :: "nat \<Rightarrow> string \<Rightarrow> jsval list \<Rightarrow> (jsval list \<times> string) option"
  and pmembers :: "nat \<Rightarrow> string \<Rightarrow> (string \<times> jsval) list \<Rightarrow> ((string \<times> jsval) list \<times> string) option"
where
  "pvalue 0 cs = None"
| "pvalue (Suc n) cs =
     (case skip_ws cs of
        [] \<Rightarrow> None
      | c # r \<Rightarrow>
          if c = CHR ''{'' then
            (case skip_ws r of
               [] \<Rightarrow> None
             | d # r' \<Rightarrow>
                 if d = CHR ''}'' then Some (JObj [], r')
                 else (case pmembers n r [] of None \<Rightarrow> None | Some (fs, r'') \<Rightarrow> Some (JObj fs, r'')))
          else if c = CHR ''['' then
            (case skip_ws r of
               [] \<Rightarrow> None
             | d # r' \<Rightarrow>
                 if d = CHR '']'' then Some (JArr [], r')
                 else (case pelements n r [] of None \<Rightarrow> None | Some (xs, r'') \<Rightarrow> Some (JArr xs, r'')))
          else if c = CHR 0x22 then
            (case pstring [] r of None \<Rightarrow> None | Some (s, r') \<Rightarrow> Some (JStr s, r'))
          else if take 4 (c # r) = ''null'' then Some (JNull, drop 4 (c # r))
          else if take 4 (c # r) = ''true'' then Some (JBool True, drop 4 (c # r))
          else if take 5 (c # r) = ''false'' then Some (JBool False, drop 5 (c # r))
          else pnumber (c # r))"
| "pelements 0 cs acc = None"
| "pelements (Suc n) cs acc =
     (case pvalue n cs of
        None \<Rightarrow> None
      | Some (v, r) \<Rightarrow>
          (case skip_ws r of
             [] \<Rightarrow> None
           | c # r' \<Rightarrow>
               if c = CHR '','' then pelements n r' (acc @ [v])
               else if c = CHR '']'' then Some (acc @ [v], r')
               else None))"
| "pmembers 0 cs acc = None"
| "pmembers (Suc n) cs acc =
     (case skip_ws cs of
        [] \<Rightarrow> None
      | q # r \<Rightarrow>
          if q \<noteq> CHR 0x22 then None
          else
            (case pstring [] r of
               None \<Rightarrow> None
             | Some (k, r1) \<Rightarrow>
                 (case skip_ws r1 of
                    [] \<Rightarrow> None
                  | c # r2 \<Rightarrow>
                      if c \<noteq> CHR '':'' then None
                      else
                        (case pvalue n r2 of
                           None \<Rightarrow> None
                         | Some (v, r3) \<Rightarrow>
                             (case skip_ws r3 of
                                [] \<Rightarrow> None
                              | d # r4 \<Rightarrow>
                                  if d = CHR '','' then pmembers n r4 (put k v acc)
                                  else if d = CHR ''}'' then Some (put k v acc, r4)
                                  else None)))))"

text \<open>\<^verbatim>\<open>JSON.parse(v)\<close>: the argument is converted to text first.\<close>

definition JSON_parse :: "jsval \<Rightarrow> outcome" where
  "JSON_parse v =
     (let text = toString v in
      case pvalue (Suc (2 * length text)) text of
        None \<Rightarrow> Inl (SyntaxError text)
      | Some (r, rest) \<Rightarrow> if skip_ws rest = [] then Inr r else Inl (SyntaxError text))"

section \<open>The environment: storage, console, event notifier, network\<close>

text \<open>
  A call that \<^verbatim>\<open>axios\<close> issues: the verb, the URL, the payload (\<^verbatim>\<open>undefined\<close> for the
  verbs that take none) and the options object.
\<close>

record http_call =
  verb :: string
  url :: string
  payload :: jsval
  config :: jsval

datatype settled = Fulfilled jsval | Rejected jsval

text \<open>
  The network and whatever answers on it (the backend, the geolocation service) decide
  how each call settles. They are a parameter of the model: a function of the calls
  issued before and of the call.
\<close>

type_synonym transport = "http_call list \<Rightarrow> http_call \<Rightarrow> settled"

text \<open>
  What goes to the console: the API class's styled lines keep the value interpolated into
  the bracketed prefix and the messages; the socket module prints plain lines.
\<close>

datatype console_entry =
    ApiLog jsval "jsval list"
  | ApiError jsval "jsval list"
  | Plain string

text \<open>
  The state the modules share: \<^verbatim>\<open>localStorage\<close> with the keys read from it so far, the
  console, the notifications handed to \<^verbatim>\<open>eventHandler.emit\<close> (event name and payload),
  and the network calls issued, each list in order of occurrence.
\<close>

record world =
  storage :: "string \<rightharpoonup> string"
  reads :: "string list"
  console :: "console_entry list"
  emitted :: "(string \<times> jsval) list"
  net :: "http_call list"

definition setItem :: "string \<Rightarrow> jsval \<Rightarrow> world \<Rightarrow> world" where
  "setItem k v w = w\<lparr>storage := (storage w)(k \<mapsto> toString v)\<rparr>"

definition getItem :: "string \<Rightarrow> world \<Rightarrow> jsval \<times> world" where
  "getItem k w =
     ((case storage w k of None \<Rightarrow> JNull | Some s \<Rightarrow> JStr s), w\<lparr>reads := reads w @ [k]\<rparr>)"

definition console_log :: "console_entry \<Rightarrow> world \<Rightarrow> world" where
  "console_log e w = w\<lparr>console := console w @ [e]\<rparr>"

text \<open>
  Modelled from the spec: the module \<^verbatim>\<open>./eventHandler\<close> is not among the sources. The
  spec calls it a process-wide event notifier with a listener list; \<open>emit\<close> records the
  notification it is handed and returns.
\<close>

definition emit :: "string \<Rightarrow> jsval \<Rightarrow> world \<Rightarrow> world" where
  "emit name p w = w\<lparr>emitted := emitted w @ [(name, p)]\<rparr>"

text \<open>
  The \<^verbatim>\<open>axios\<close> object, indexed by a method name: \<^verbatim>\<open>get\<close>, \<^verbatim>\<open>delete\<close>, \<^verbatim>\<open>head\<close> and
  \<^verbatim>\<open>options\<close> take \<^verbatim>\<open>(url, config)\<close>, \<^verbatim>\<open>post\<close>, \<^verbatim>\<open>put\<close> and \<^verbatim>\<open>patch\<close> take
  \<^verbatim>\<open>(url, data, config)\<close>; further arguments are ignored. Under any other name there is
  no verb to call (\<open>None\<close>).
\<close>

definition axios :: "string \<Rightarrow> string \<Rightarrow> jsval \<Rightarrow> jsval \<Rightarrow> http_call option" where
  "axios method u a2 a3 =
     (if method \<in> set [''get'', ''delete'', ''head'', ''options'']
      then Some \<lparr>verb = method, url = u, payload = JUndefined, config = a2\<rparr>
      else if method \<in> set [''post'', ''put'', ''patch'']
      then Some \<lparr>verb = method, url = u, payload = a2, config = a3\<rparr>
      else None)"

definition send :: "transport \<Rightarrow> http_call \<Rightarrow> world \<Rightarrow> settled \<times> world" where
  "send tr c w = (tr (net w) c, w\<lparr>net := net w @ [c]\<rparr>)"

section \<open>The API class\<close>

definition ROOT_PATH :: string where
  "ROOT_PATH = ''https://backend.xornet.cloud''"

text \<open>\<^verbatim>\<open>log(method, ...messages)\<close>\<close>

definition log :: "jsval \<Rightarrow> jsval list \<Rightarrow> world \<Rightarrow> world" where
  "log method messages w = console_log (ApiLog method messages) w"

text \<open>\<^verbatim>\<open>error(method, ...messages)\<close>: the notification first, then the console line.\<close>

definition error :: "jsval \<Rightarrow> jsval list \<Rightarrow> world \<Rightarrow> world" where
  "error method messages w =
     console_log (ApiError method messages)
       (emit ''error'' (JObj [(''method'', method), (''messages'', JArr messages)]) w)"

definition logResponse :: "jsval \<Rightarrow> jsval \<Rightarrow> world \<Rightarrow> world" where
  "logResponse method response w =
     (if \<not> truthy response then w
      else if truthy (member (member response ''data'') ''message'')
      then log method [member (member response ''data'') ''message''] w
      else if truthy (member response ''data'')
      then log method [member response ''data''] w
      else log method [response] w)"

definition logError :: "jsval \<Rightarrow> jsval \<Rightarrow> world \<Rightarrow> world" where
  "logError method response w =
     (if \<not> truthy response then w
      else if truthy (member (member response ''data'') ''message'')
      then error method [member (member response ''data'') ''message''] w
      else if truthy (member response ''data'')
      then error method [member response ''data''] w
      else error method [response] w)"

definition constructEndpoint :: "string \<Rightarrow> string" where
  "constructEndpoint route = ROOT_PATH @ ''/'' @ route"

text \<open>
  \<^verbatim>\<open>getGeolocation()\<close>: one GET with no options to the lookup service; a rejected call is
  not caught, and \<^verbatim>\<open>.data\<close> and the three fields are plain property reads.
\<close>

definition getGeolocation :: "transport \<Rightarrow> world \<Rightarrow> outcome \<times> world" where
  "getGeolocation tr w =
     (case axios ''get'' ''https://ipwhois.app/json/'' JUndefined JUndefined of
        None \<Rightarrow> (Inl (TypeError ''get''), w)
      | Some c \<Rightarrow>
          (case send tr c w of
             (Rejected e, w1) \<Rightarrow> (Inl e, w1)
           | (Fulfilled r, w1) \<Rightarrow>
               (case read r ''data'' of
                  Inl e \<Rightarrow> (Inl e, w1)
                | Inr location \<Rightarrow>
                    (if nullish location then (Inl (TypeError ''country''), w1)
                     else (Inr (JObj [(''location'', member location ''country''),
                                     (''countryCode'', member location ''country_code''),
                                     (''isp'', member location ''isp'')]), w1)))))"

text \<open>
  \<^verbatim>\<open>request(method, route, headers, body)\<close>. The label of its log lines is
  \<^verbatim>\<open>`${method.toUpperCase()} ${route}`\<close>. The handler given to \<^verbatim>\<open>.catch\<close> is
  \<^verbatim>\<open>error => this.logError(label, error)\<close>; \<open>logError\<close> returns nothing, so a rejected
  call leaves \<^verbatim>\<open>response\<close> undefined. Indexing \<^verbatim>\<open>axios\<close> with a name that is no verb
  gives nothing to call: a TypeError outside the \<^verbatim>\<open>.catch\<close>. \<open>request_call\<close> is
  the call handed to \<^verbatim>\<open>axios[method]\<close>: the verbs \<^verbatim>\<open>get\<close> and \<^verbatim>\<open>delete\<close> get
  \<^verbatim>\<open>body || {withCredentials: true, headers}\<close> as options, the others get
  \<^verbatim>\<open>body || undefined\<close> as payload and the options object after it.
\<close>

definition request_call :: "string \<Rightarrow> string \<Rightarrow> jsval \<Rightarrow> jsval \<Rightarrow> http_call option" where
  "request_call method route headers body =
     (let options = JObj [(''withCredentials'', JBool True), (''headers'', headers)]
      in if method = ''get'' \<or> method = ''delete''
         then axios method (constructEndpoint route) (js_or body options) JUndefined
         else axios method (constructEndpoint route) (js_or body JUndefined) options)"

definition request :: "transport \<Rightarrow> string \<Rightarrow> string \<Rightarrow> jsval \<Rightarrow> jsval \<Rightarrow> world \<Rightarrow> outcome \<times> world" where
  "request tr method route headers body w =
     (let label = JStr (toUpperCase method @ '' '' @ route)
      in case request_call method route headers body of
           None \<Rightarrow> (Inl (TypeError method), w)
         | Some c \<Rightarrow>
             (case send tr c w of
                (Fulfilled r, w1) \<Rightarrow> (Inr r, logResponse label r w1)
              | (Rejected e, w1) \<Rightarrow>
                  (Inr JUndefined, logResponse label JUndefined (logError label e w1))))"

text \<open>\<^verbatim>\<open>(await p).data\<close>\<close>

definition dot_data :: "outcome \<times> world \<Rightarrow> outcome \<times> world" where
  "dot_data rw = (case rw of (Inl e, w) \<Rightarrow> (Inl e, w) | (Inr r, w) \<Rightarrow> (read r ''data'', w))"

section \<open>The resource call groups\<close>

text \<open>
  Arguments interpolated into a route go through \<open>toString\<close>, as a template literal
  does. A call with no headers or no body passes \<^verbatim>\<open>undefined\<close>.
\<close>

subsection \<open>Datacenter\<close>

definition fetchAll :: "transport \<Rightarrow> world \<Rightarrow> outcome \<times> world" where
  "fetchAll tr w = dot_data (request tr ''get'' ''datacenter/all'' JUndefined JUndefined w)"

text \<open>\<^verbatim>\<open>if (datacenter) return ...;\<close> and nothing after it.\<close>

definition fetchMachineCount :: "transport \<Rightarrow> jsval \<Rightarrow> world \<Rightarrow> outcome \<times> world" where
  "fetchMachineCount tr datacenter w =
     (if truthy datacenter
      then dot_data (request tr ''get'' (''datacenter/'' @ toString datacenter @ ''/machine/count'')
                       JUndefined JUndefined w)
      else (Inr JUndefined, w))"

definition fetch :: "transport \<Rightarrow> jsval \<Rightarrow> world \<Rightarrow> outcome \<times> world" where
  "fetch tr datacenter w =
     dot_data (request tr ''get'' (''datacenter/'' @ toString datacenter) JUndefined JUndefined w)"

definition revokeMember :: "transport \<Rightarrow> jsval \<Rightarrow> jsval \<Rightarrow> world \<Rightarrow> outcome \<times> world" where
  "revokeMember tr datacenter user w =
     (case str_method ''toLowerCase'' toLowerCase user of
        Inl e \<Rightarrow> (Inl e, w)
      | Inr u \<Rightarrow>
          dot_data (request tr ''delete'' (''datacenter/'' @ toString datacenter @ ''/user/'' @ u)
                      JUndefined JUndefined w))"

definition addMember :: "transport \<Rightarrow> jsval \<Rightarrow> jsval \<Rightarrow> world \<Rightarrow> outcome \<times> world" where
  "addMember tr datacenter user w =
     (case str_method ''toLowerCase'' toLowerCase user of
        Inl e \<Rightarrow> (Inl e, w)
      | Inr u \<Rightarrow>
          dot_data (request tr ''put'' (''datacenter/'' @ toString datacenter @ ''/user/'' @ u)
                      JUndefined JUndefined w))"

definition Datacenter_addMachine :: "transport \<Rightarrow> jsval \<Rightarrow> jsval \<Rightarrow> world \<Rightarrow> outcome \<times> world" where
  "Datacenter_addMachine tr datacenter machine w =
     (case str_method ''toLowerCase'' toLowerCase machine of
        Inl e \<Rightarrow> (Inl e, w)
      | Inr m \<Rightarrow>
          dot_data (request tr ''put'' (''datacenter/'' @ toString datacenter @ ''/machine/'' @ m)
                      JUndefined JUndefined w))"

definition add :: "transport \<Rightarrow> jsval \<Rightarrow> world \<Rightarrow> outcome \<times> world" where
  "add tr form w =
     request tr ''post'' ''datacenter/new'' (JObj [(''Content-Type'', JStr ''application/json'')]) form w"

text \<open>A \<^verbatim>\<open>FormData\<close> is modelled by the object of its entries, in the order appended.\<close>

definition Datacenter_save :: "transport \<Rightarrow> jsval \<Rightarrow> jsval \<Rightarrow> jsval \<Rightarrow> world \<Rightarrow> outcome \<times> world" where
  "Datacenter_save tr datacenter logo banner w =
     (let formData = JObj [(''logo'', logo), (''banner'', banner)]
      in case str_method ''trim'' trim datacenter of
           Inl e \<Rightarrow> (Inl e, w)
         | Inr d \<Rightarrow>
             request tr ''patch'' (''datacenter/'' @ d)
               (JObj [(''Content-Type'', JStr ''multipart/form-data'')]) formData w)"

subsection \<open>User\<close>

text \<open>
  The properties an object spread copies: those of an object, the indexed elements of an
  array or a string, none of anything else. \<open>spread v fs\<close> is \<^verbatim>\<open>{...fs, ...v}\<close>.
  The runtime enumerates keys that are array indices before the others; the model keeps
  the order of writing, which is the same for the objects of string-named properties that
  the sign-in forms are.
\<close>

fun own_props :: "jsval \<Rightarrow> (string \<times> jsval) list" where
  "own_props (JObj fs) = fs"
| "own_props (JArr xs) = zip (map decimal [0..<length xs]) xs"
| "own_props (JStr s) = zip (map decimal [0..<length s]) (map (\<lambda>c. JStr [c]) s)"
| "own_props v = []"

definition spread :: "jsval \<Rightarrow> (string \<times> jsval) list \<Rightarrow> (string \<times> jsval) list" where
  "spread v fs = fold (\<lambda>(k, x). put k x) (own_props v) fs"

text \<open>
  \<^verbatim>\<open>login(json)\<close>. The promise it returns is settled by the \<^verbatim>\<open>resolve\<close> and
  \<^verbatim>\<open>reject\<close> calls of the executor only: \<open>Some (Inr v)\<close> is resolved with \<open>v\<close>,
  \<open>Some (Inl v)\<close> rejected with \<open>v\<close>, and \<open>None\<close> is the promise that never settles,
  which is what is left when the \<^verbatim>\<open>catch\<close> block itself throws at \<^verbatim>\<open>error.status\<close>.
  \<open>login_catch\<close> is that block: \<^verbatim>\<open>super.log(error); reject(error.status)\<close>.
  The object literal of the form evaluates the geolocation before \<^verbatim>\<open>JSON.parse(json)\<close>.
\<close>

definition login_catch :: "jsval \<Rightarrow> world \<Rightarrow> outcome option \<times> world" where
  "login_catch err w =
     (let w1 = log err [] w
      in if nullish err then (None, w1) else (Some (Inl (member err ''status'')), w1))"

definition login :: "transport \<Rightarrow> jsval \<Rightarrow> world \<Rightarrow> outcome option \<times> world" where
  "login tr json w =
     (case getGeolocation tr w of
        (Inl e, w1) \<Rightarrow> login_catch e w1
      | (Inr geolocation, w1) \<Rightarrow>
          (case JSON_parse json of
             Inl e \<Rightarrow> login_catch e w1
           | Inr parsed \<Rightarrow>
               (let loginForm = JObj (spread parsed [(''geolocation'', geolocation)])
                in case request tr ''post'' ''login''
                          (JObj [(''Content-Type'', JStr ''application/json'')]) loginForm w1 of
                     (Inl e, w2) \<Rightarrow> login_catch e w2
                   | (Inr response, w2) \<Rightarrow>
                       (case read response ''data'' of
                          Inl e \<Rightarrow> login_catch e w2
                        | Inr data \<Rightarrow>
                            (case read data ''token'' of
                               Inl e \<Rightarrow> login_catch e w2
                             | Inr token \<Rightarrow>
                                 (let w3 = setItem ''token'' token w2;
                                      w4 = setItem ''username'' (member loginForm ''username'') w3;
                                      w5 = setItem ''me'' (JSON_stringify (member data ''me'')) w4;
                                      w6 = log (JStr ''Logged in successfully'') [] w5
                                  in (Some (Inr (member response ''status'')), w6)))))))"

definition signup :: "transport \<Rightarrow> jsval \<Rightarrow> world \<Rightarrow> outcome \<times> world" where
  "signup tr json w =
     (case getGeolocation tr w of
        (Inl e, w1) \<Rightarrow> (Inl e, w1)
      | (Inr geolocation, w1) \<Rightarrow>
          request tr ''post'' ''signup'' (JObj [(''Content-Type'', JStr ''application/json'')])
            (JObj (spread json [(''geolocation'', geolocation)])) w1)"

definition fetchProfile :: "transport \<Rightarrow> jsval \<Rightarrow> world \<Rightarrow> outcome \<times> world" where
  "fetchProfile tr username w =
     dot_data (request tr ''get'' (''profile/'' @ toString username) JUndefined JUndefined w)"

definition fetchMe :: "transport \<Rightarrow> world \<Rightarrow> outcome \<times> world" where
  "fetchMe tr w =
     (case getItem ''username'' w of
        (username, w1) \<Rightarrow>
          dot_data (request tr ''get'' (''profile/'' @ toString username) JUndefined JUndefined w1))"

definition fetchLogs :: "transport \<Rightarrow> jsval \<Rightarrow> world \<Rightarrow> outcome \<times> world" where
  "fetchLogs tr machineUUID w =
     (if truthy machineUUID
      then dot_data (request tr ''get'' (''logs/'' @ toString machineUUID) JUndefined JUndefined w)
      else dot_data (request tr ''get'' ''logs'' JUndefined JUndefined w))"

text \<open>Destructuring \<^verbatim>\<open>profile\<close> throws on \<^verbatim>\<open>null\<close> and \<^verbatim>\<open>undefined\<close>.\<close>

definition User_save :: "transport \<Rightarrow> jsval \<Rightarrow> jsval \<Rightarrow> jsval \<Rightarrow> world \<Rightarrow> outcome \<times> world" where
  "User_save tr profile profileImage profileBanner w =
     (if nullish profile then (Inl (TypeError ''profile''), w)
      else
        (let formData =
               JObj [(''json'', JSON_stringify (JObj [(''bio'', member profile ''bio''),
                                                      (''socials'', member profile ''socials''),
                                                      (''badges'', member profile ''badges''),
                                                      (''email'', member profile ''email'')])),
                     (''image'', profileImage),
                     (''banner'', profileBanner)]
         in dot_data (request tr ''patch'' ''profile''
                        (JObj [(''Content-Type'', JStr ''multipart/form-data'')]) formData w)))"

definition User_addMachine :: "transport \<Rightarrow> jsval \<Rightarrow> world \<Rightarrow> outcome \<times> world" where
  "User_addMachine tr machineUUID w =
     dot_data (request tr ''put'' ''profile/machine''
                 (JObj [(''Content-Type'', JStr ''application/json'')])
                 (JObj [(''machine'', machineUUID)]) w)"

definition search :: "transport \<Rightarrow> jsval \<Rightarrow> world \<Rightarrow> outcome \<times> world" where
  "search tr user w =
     dot_data (request tr ''get'' (''/search/user/'' @ toString user) JUndefined JUndefined w)"

subsection \<open>Machine\<close>

definition getNetwork :: "transport \<Rightarrow> jsval \<Rightarrow> world \<Rightarrow> outcome \<times> world" where
  "getNetwork tr machineUUID w =
     dot_data (request tr ''get'' (''stats/network/'' @ toString machineUUID) JUndefined JUndefined w)"

definition getMachineSpecs :: "transport \<Rightarrow> jsval \<Rightarrow> world \<Rightarrow> outcome \<times> world" where
  "getMachineSpecs tr machineUUID w =
     dot_data (request tr ''get'' (''stats/machine/'' @ toString machineUUID) JUndefined JUndefined w)"

definition getProcesses :: "transport \<Rightarrow> jsval \<Rightarrow> world \<Rightarrow> outcome \<times> world" where
  "getProcesses tr machineUUID w =
     dot_data (request tr ''get'' (''stats/processes/'' @ toString machineUUID) JUndefined JUndefined w)"

subsection \<open>The module body\<close>

text \<open>
  Loading the module constructs the user, machine and datacenter instances in this order,
  each constructor logging one line, and then prints the line \<^verbatim>\<open>[API] [Class Loaded]\<close>
  in the style of \<open>log\<close>.
\<close>

definition api :: "world \<Rightarrow> world" where
  "api w =
     console_log (ApiLog (JStr ''Class Loaded'') [])
       (log (JStr ''Initialized datacenter class'') []
          (log (JStr ''Initialized machine class'') []
             (log (JStr ''Initialized user class'') [] w)))"

section \<open>The realtime channel\<close>

text \<open>
  What \<^verbatim>\<open>io(uri, opts)\<close> returns: the address, the options object it was given, and the
  listeners registered with \<^verbatim>\<open>on\<close>. Both listeners of \<^verbatim>\<open>socket.js\<close> print one fixed
  line, so a listener is the line it prints.
\<close>

record channel =
  uri :: string
  opts :: jsval
  listeners :: "(string \<times> string) list"

definition io :: "string \<Rightarrow> jsval \<Rightarrow> channel" where
  "io u options = \<lparr>uri = u, opts = options, listeners = []\<rparr>"

definition on :: "string \<Rightarrow> string \<Rightarrow> channel \<Rightarrow> channel" where
  "on event line c = c\<lparr>listeners := listeners c @ [(event, line)]\<rparr>"

text \<open>
  The module body of \<^verbatim>\<open>socket.js\<close>, run once when the module is loaded: the options
  object literal is evaluated there, with its \<^verbatim>\<open>localStorage.getItem("token")\<close>.
\<close>

definition socket :: "world \<Rightarrow> channel \<times> world" where
  "socket w =
     (case getItem ''token'' w of
        (token, w1) \<Rightarrow>
          (on ''disconnect'' ''[Socket] Disconnected''
             (on ''connect'' ''[Socket] Connected''
                (io ''wss://backend.xornet.cloud''
                    (JObj [(''reconnect'', JBool True),
                           (''auth'', JObj [(''type'', JStr ''client''), (''token'', token)])]))),
           w1))"

text \<open>
  What happens after the module is loaded: the transport delivers an event to the
  channel's listeners (\<^verbatim>\<open>connect\<close> on every connection and reconnection,
  \<^verbatim>\<open>disconnect\<close>), some code writes to \<^verbatim>\<open>localStorage\<close>, or the user logs in. The
  authentication payload the channel presents when it connects is the \<^verbatim>\<open>auth\<close> entry
  of the options it holds.
\<close>

datatype occurrence = Fired string | Stored string jsval | LoggedIn jsval

definition fire :: "channel \<Rightarrow> string \<Rightarrow> world \<Rightarrow> world" where
  "fire c event w = fold (\<lambda>(ev, line) w'. if ev = event then console_log (Plain line) w' else w') (listeners c) w"

fun occur :: "transport \<Rightarrow> channel \<Rightarrow> occurrence \<Rightarrow> world \<Rightarrow> world" where
  "occur tr c (Fired event) w = fire c event w"
| "occur tr c (Stored k v) w = setItem k v w"
| "occur tr c (LoggedIn json) w = snd (login tr json w)"

definition handshake :: "channel \<Rightarrow> jsval" where
  "handshake c = member (opts c) ''auth''"

section \<open>Measures and scenarios used in the statements\<close>

text \<open>The number of places in a text where two slashes stand side by side.\<close>

fun double_slashes :: "string \<Rightarrow> nat" where
  "double_slashes (a # b # cs) =
     (if a = CHR ''/'' \<and> b = CHR ''/'' then 1 else 0) + double_slashes (b # cs)"
| "double_slashes cs = 0"

text \<open>
  The transport fulfils, with the response \<open>r\<close>, the call that \<open>request\<close> issues in
  the world \<open>w\<close> for the given verb, route, headers and body.
\<close>

definition answers :: "transport \<Rightarrow> world \<Rightarrow> string \<Rightarrow> string \<Rightarrow> jsval \<Rightarrow> jsval \<Rightarrow> jsval \<Rightarrow> bool" where
  "answers tr w method route headers body r =
     (case request_call method route headers body of
        None \<Rightarrow> False
      | Some c \<Rightarrow> tr (net w) c = Fulfilled r)"

text \<open>A world in which nothing is stored and nothing has been logged or sent yet.\<close>

definition fresh :: world where
  "fresh = \<lparr>storage = Map.empty, reads = [], console = [], emitted = [], net = []\<rparr>"

text \<open>The page of a user who logged in earlier: a token is in storage.\<close>

definition returning :: world where
  "returning = \<lparr>storage = [''token'' \<mapsto> ''old''], reads = [], console = [], emitted = [], net = []\<rparr>"

text \<open>The credentials of the sign-in form, as an object and as JSON text.\<close>

definition credentials :: jsval where
  "credentials = JObj [(''username'', JStr ''a''), (''password'', JStr ''b'')]"

definition credentials_text :: jsval where
  \<open>credentials_text = JStr ''{"username":"a","password":"b"}''\<close>

text \<open>What the geolocation service answers, and the geolocation the client makes of it.\<close>

definition whois :: jsval where
  "whois = JObj [(''status'', JNum 200),
                 (''data'', JObj [(''country'', JStr ''Iceland''), (''country_code'', JStr ''IS''),
                                  (''isp'', JStr ''Example Net'')])]"

definition iceland :: jsval where
  "iceland = JObj [(''location'', JStr ''Iceland''), (''countryCode'', JStr ''IS''),
                   (''isp'', JStr ''Example Net'')]"

text \<open>A backend that accepts the login, and its response.\<close>

definition greeting :: jsval where
  "greeting = JObj [(''status'', JNum 200),
                   (''data'', JObj [(''token'', JStr ''T''), (''me'', JObj [(''uuid'', JStr ''u1'')])])]"

definition healthy :: transport where
  "healthy past c = (if url c = ''https://ipwhois.app/json/'' then Fulfilled whois else Fulfilled greeting)"

text \<open>
  A backend that refuses with HTTP 401: the call is rejected with an error object that
  carries the status code and the response.
\<close>

definition refusal :: jsval where
  "refusal = JObj [(''message'', JStr ''Request failed with status code 401''),
                   (''status'', JNum 401),
                   (''response'', JObj [(''status'', JNum 401),
                                        (''data'', JObj [(''message'', JStr ''Invalid credentials'')])])]"

definition refusing :: transport where
  "refusing past c = (if url c = ''https://ipwhois.app/json/'' then Fulfilled whois else Rejected refusal)"

text \<open>No network at all, the geolocation service included.\<close>

definition network_error :: jsval where
  "network_error = JObj [(''message'', JStr ''Network Error'')]"

definition offline :: transport where
  "offline past c = Rejected network_error"

text \<open>Only the geolocation service is unreachable.\<close>

definition nowhere :: transport where
  "nowhere past c = (if url c = ''https://ipwhois.app/json/'' then Rejected network_error else Fulfilled greeting)"

section \<open>Facts about the model\<close>

subsection \<open>The call a request issues\<close>

lemma axios_cases:
  "axios method u a2 a3 = Some c \<Longrightarrow>
     c = \<lparr>verb = method, url = u, payload = JUndefined, config = a2\<rparr> \<or>
     c = \<lparr>verb = method, url = u, payload = a2, config = a3\<rparr>"
  unfolding axios_def
  by (cases "method \<in> set [''get'', ''delete'', ''head'', ''options'']";
      cases "method \<in> set [''post'', ''put'', ''patch'']")
     (simp_all only: if_True if_False option.simps simp_thms)

lemma axios_url: "axios method u a2 a3 = Some c \<Longrightarrow> url c = u"
  by (drule axios_cases) (erule disjE, simp_all)

lemma request_call_url:
  "request_call method route headers body = Some c \<Longrightarrow> url c = constructEndpoint route"
  unfolding request_call_def Let_def
  by (cases "method = ''get'' \<or> method = ''delete''") (simp_all only: if_True if_False axios_url)

lemma axios_get: "axios ''get'' u a2 a3 = Some \<lparr>verb = ''get'', url = u, payload = JUndefined, config = a2\<rparr>"
  by (simp add: axios_def)

lemma axios_delete: "axios ''delete'' u a2 a3 = Some \<lparr>verb = ''delete'', url = u, payload = JUndefined, config = a2\<rparr>"
  by (simp add: axios_def)

lemma axios_post: "axios ''post'' u a2 a3 = Some \<lparr>verb = ''post'', url = u, payload = a2, config = a3\<rparr>"
  by (simp add: axios_def)

lemma axios_put: "axios ''put'' u a2 a3 = Some \<lparr>verb = ''put'', url = u, payload = a2, config = a3\<rparr>"
  by (simp add: axios_def)

lemma axios_patch: "axios ''patch'' u a2 a3 = Some \<lparr>verb = ''patch'', url = u, payload = a2, config = a3\<rparr>"
  by (simp add: axios_def)

lemma request_call_get:
  "request_call ''get'' route headers body =
     Some \<lparr>verb = ''get'', url = constructEndpoint route, payload = JUndefined,
           config = js_or body (JObj [(''withCredentials'', JBool True), (''headers'', headers)])\<rparr>"
  by (simp add: request_call_def axios_get)

lemma request_call_delete:
  "request_call ''delete'' route headers body =
     Some \<lparr>verb = ''delete'', url = constructEndpoint route, payload = JUndefined,
           config = js_or body (JObj [(''withCredentials'', JBool True), (''headers'', headers)])\<rparr>"
  by (simp add: request_call_def axios_delete)

lemma request_call_post:
  "request_call ''post'' route headers body =
     Some \<lparr>verb = ''post'', url = constructEndpoint route, payload = js_or body JUndefined,
           config = JObj [(''withCredentials'', JBool True), (''headers'', headers)]\<rparr>"
  by (simp add: request_call_def axios_post)

lemma request_call_put:
  "request_call ''put'' route headers body =
     Some \<lparr>verb = ''put'', url = constructEndpoint route, payload = js_or body JUndefined,
           config = JObj [(''withCredentials'', JBool True), (''headers'', headers)]\<rparr>"
  by (simp add: request_call_def axios_put)

lemma request_call_patch:
  "request_call ''patch'' route headers body =
     Some \<lparr>verb = ''patch'', url = constructEndpoint route, payload = js_or body JUndefined,
           config = JObj [(''withCredentials'', JBool True), (''headers'', headers)]\<rparr>"
  by (simp add: request_call_def axios_patch)

lemma request_call_verbs:
  assumes "method \<in> set [''get'', ''delete'', ''post'', ''put'', ''patch'']"
  shows "\<exists>c. request_call method route headers body = Some c"
proof -
  from assms consider "method = ''get''" | "method = ''delete''" | "method = ''post''"
    | "method = ''put''" | "method = ''patch''"
    by (simp only: set_simps insert_iff empty_iff) blast
  then show ?thesis
  proof cases
    case 1 then show ?thesis by (simp only: request_call_get) blast
  next
    case 2 then show ?thesis by (simp only: request_call_delete) blast
  next
    case 3 then show ?thesis by (simp only: request_call_post) blast
  next
    case 4 then show ?thesis by (simp only: request_call_put) blast
  next
    case 5 then show ?thesis by (simp only: request_call_patch) blast
  qed
qed

lemma request_fulfilled:
  assumes "request_call method route headers body = Some c" and "tr (net w) c = Fulfilled r"
  shows "request tr method route headers body w =
           (Inr r, logResponse (JStr (toUpperCase method @ '' '' @ route)) r (w\<lparr>net := net w @ [c]\<rparr>))"
  using assms by (simp add: request_def send_def)

lemma request_rejected:
  assumes "request_call method route headers body = Some c" and "tr (net w) c = Rejected e"
  shows "request tr method route headers body w =
           (Inr JUndefined, logError (JStr (toUpperCase method @ '' '' @ route)) e (w\<lparr>net := net w @ [c]\<rparr>))"
  using assms by (simp add: request_def send_def logResponse_def)

lemma request_no_verb:
  assumes "request_call method route headers body = None"
  shows "request tr method route headers body w = (Inl (TypeError method), w)"
  using assms by (simp add: request_def)

lemma logResponse_frame:
  "net (logResponse l r w) = net w" "emitted (logResponse l r w) = emitted w"
  "storage (logResponse l r w) = storage w" "reads (logResponse l r w) = reads w"
  by (simp_all add: logResponse_def log_def console_log_def)

lemma logError_frame:
  "net (logError l e w) = net w"
  "storage (logError l e w) = storage w" "reads (logError l e w) = reads w"
  by (simp_all add: logError_def error_def emit_def console_log_def)

lemma logError_emitted:
  "emitted (logError l e w) =
     emitted w @
     (if truthy e
      then [(''error'',
             JObj [(''method'', l),
                   (''messages'',
                    JArr [if truthy (member (member e ''data'') ''message'')
                          then member (member e ''data'') ''message''
                          else if truthy (member e ''data'') then member e ''data'' else e])])]
      else [])"
  by (simp add: logError_def error_def emit_def console_log_def)

lemma request_net:
  assumes c: "request_call method route headers body = Some c"
  shows "net (snd (request tr method route headers body w)) = net w @ [c]"
proof (cases "tr (net w) c")
  case (Fulfilled r)
  with c show ?thesis by (simp add: request_fulfilled logResponse_frame)
next
  case (Rejected e)
  with c show ?thesis by (simp add: request_rejected logError_frame)
qed

lemma request_reads: "reads (snd (request tr method route headers body w)) = reads w"
proof (cases "request_call method route headers body")
  case None
  then show ?thesis by (simp add: request_no_verb)
next
  case (Some c)
  then show ?thesis
    by (cases "tr (net w) c") (simp_all add: request_fulfilled request_rejected logResponse_frame logError_frame)
qed

subsection \<open>Double slashes\<close>

lemma double_slashes_append:
  "double_slashes (xs @ ys) =
     double_slashes xs + double_slashes ys +
     (if xs \<noteq> [] \<and> ys \<noteq> [] \<and> last xs = CHR ''/'' \<and> hd ys = CHR ''/'' then 1 else 0)"
proof (induction xs)
  case Nil
  show ?case by simp
next
  case (Cons a xs)
  show ?case
  proof (cases xs)
    case Nil
    then show ?thesis by (cases ys) auto
  next
    case (Cons b cs)
    with Cons.IH show ?thesis by simp
  qed
qed

lemma double_slashes_slash_route:
  "double_slashes (CHR ''/'' # route) =
     double_slashes route + (if route \<noteq> [] \<and> hd route = CHR ''/'' then 1 else 0)"
  by (cases route) auto

lemma ROOT_PATH_last: "ROOT_PATH \<noteq> [] \<and> last ROOT_PATH \<noteq> CHR ''/''"
  by (simp add: ROOT_PATH_def)

lemma toUpperCase_get: "toUpperCase ''get'' = ''GET''"
  by code_simp

lemma toUpperCase_post: "toUpperCase ''post'' = ''POST''"
  by code_simp

subsection \<open>Geolocation and login\<close>

lemma getGeolocation_frame:
  "storage (snd (getGeolocation tr w)) = storage w"
  "reads (snd (getGeolocation tr w)) = reads w"
  "emitted (snd (getGeolocation tr w)) = emitted w"
  by (simp_all add: getGeolocation_def axios_get send_def read_def split: settled.splits)

lemma login_catch_frame:
  "storage (snd (login_catch e w)) = storage w"
  "reads (snd (login_catch e w)) = reads w"
  by (simp_all add: login_catch_def log_def console_log_def Let_def)

lemma request_post_fulfilled:
  assumes "tr (net w) \<lparr>verb = ''post'', url = ROOT_PATH @ ''/'' @ route, payload = JObj fs,
                        config = JObj [(''withCredentials'', JBool True), (''headers'', headers)]\<rparr> =
             Fulfilled r"
  shows "request tr ''post'' route headers (JObj fs) w =
           (Inr r, logResponse (JStr (toUpperCase ''post'' @ '' '' @ route)) r
                     (w\<lparr>net := net w @ [\<lparr>verb = ''post'', url = ROOT_PATH @ ''/'' @ route,
                                          payload = JObj fs,
                                          config = JObj [(''withCredentials'', JBool True),
                                                         (''headers'', headers)]\<rparr>]\<rparr>))"
proof -
  have "request_call ''post'' route headers (JObj fs) =
          Some \<lparr>verb = ''post'', url = ROOT_PATH @ ''/'' @ route, payload = JObj fs,
                config = JObj [(''withCredentials'', JBool True), (''headers'', headers)]\<rparr>"
    by (simp add: request_call_post js_or_def constructEndpoint_def)
  then show ?thesis using assms by (rule request_fulfilled)
qed

lemma request_post_rejected:
  assumes "tr (net w) \<lparr>verb = ''post'', url = ROOT_PATH @ ''/'' @ route, payload = JObj fs,
                        config = JObj [(''withCredentials'', JBool True), (''headers'', headers)]\<rparr> =
             Rejected e"
  shows "request tr ''post'' route headers (JObj fs) w =
           (Inr JUndefined, logError (JStr (toUpperCase ''post'' @ '' '' @ route)) e
                     (w\<lparr>net := net w @ [\<lparr>verb = ''post'', url = ROOT_PATH @ ''/'' @ route,
                                          payload = JObj fs,
                                          config = JObj [(''withCredentials'', JBool True),
                                                         (''headers'', headers)]\<rparr>]\<rparr>))"
proof -
  have "request_call ''post'' route headers (JObj fs) =
          Some \<lparr>verb = ''post'', url = ROOT_PATH @ ''/'' @ route, payload = JObj fs,
                config = JObj [(''withCredentials'', JBool True), (''headers'', headers)]\<rparr>"
    by (simp add: request_call_post js_or_def constructEndpoint_def)
  then show ?thesis using assms by (rule request_rejected)
qed

lemma request_get_fulfilled:
  assumes "tr (net w) \<lparr>verb = ''get'', url = ROOT_PATH @ ''/'' @ route, payload = JUndefined,
                        config = JObj [(''withCredentials'', JBool True), (''headers'', JUndefined)]\<rparr> =
             Fulfilled r"
  shows "request tr ''get'' route JUndefined JUndefined w =
           (Inr r, logResponse (JStr (toUpperCase ''get'' @ '' '' @ route)) r
                     (w\<lparr>net := net w @ [\<lparr>verb = ''get'', url = ROOT_PATH @ ''/'' @ route,
                                          payload = JUndefined,
                                          config = JObj [(''withCredentials'', JBool True),
                                                         (''headers'', JUndefined)]\<rparr>]\<rparr>))"
proof -
  have "request_call ''get'' route JUndefined JUndefined =
          Some \<lparr>verb = ''get'', url = ROOT_PATH @ ''/'' @ route, payload = JUndefined,
                config = JObj [(''withCredentials'', JBool True), (''headers'', JUndefined)]\<rparr>"
    by (simp add: request_call_get js_or_def constructEndpoint_def)
  then show ?thesis using assms by (rule request_fulfilled)
qed

lemma login_reads: "reads (snd (login tr json w)) = reads w"
proof -
  obtain r1 w1 where g: "getGeolocation tr w = (r1, w1)"
    by (cases "getGeolocation tr w")
  have w1: "reads w1 = reads w"
    using getGeolocation_frame(2) [of tr w] g by simp
  show ?thesis
  proof (cases r1)
    case (Inl e)
    with g w1 show ?thesis by (simp add: login_def login_catch_frame)
  next
    case geo: (Inr geolocation)
    show ?thesis
    proof (cases "JSON_parse json")
      case (Inl e)
      with g geo w1 show ?thesis by (simp add: login_def login_catch_frame)
    next
      case parsed: (Inr parsed)
      obtain r2 w2 where q: "request tr ''post'' ''login''
          (JObj [(''Content-Type'', JStr ''application/json'')])
          (JObj (spread parsed [(''geolocation'', geolocation)])) w1 = (r2, w2)"
        by (cases "request tr ''post'' ''login''
          (JObj [(''Content-Type'', JStr ''application/json'')])
          (JObj (spread parsed [(''geolocation'', geolocation)])) w1")
      have w2: "reads w2 = reads w"
        using request_reads [of tr "''post''" "''login''"
            "JObj [(''Content-Type'', JStr ''application/json'')]"
            "JObj (spread parsed [(''geolocation'', geolocation)])" w1] q w1
        by simp
      from g geo parsed q w2 show ?thesis
        by (simp add: login_def Let_def login_catch_frame setItem_def log_def console_log_def
            split: sum.splits)
    qed
  qed
qed

lemma parse_credentials_text: "JSON_parse credentials_text = Inr credentials"
  unfolding credentials_text_def credentials_def by code_simp

lemma parse_credentials: "JSON_parse credentials = Inl (SyntaxError ''[object Object]'')"
  unfolding credentials_def by code_simp

lemma geolocation_healthy:
  "getGeolocation healthy fresh =
     (Inr iceland, fresh\<lparr>net := [\<lparr>verb = ''get'', url = ''https://ipwhois.app/json/'',
                                  payload = JUndefined, config = JUndefined\<rparr>]\<rparr>)"
  by (simp add: getGeolocation_def axios_get send_def healthy_def whois_def iceland_def
      read_def fresh_def)

lemma geolocation_refusing:
  "getGeolocation refusing fresh =
     (Inr iceland, fresh\<lparr>net := [\<lparr>verb = ''get'', url = ''https://ipwhois.app/json/'',
                                  payload = JUndefined, config = JUndefined\<rparr>]\<rparr>)"
  by (simp add: getGeolocation_def axios_get send_def refusing_def whois_def iceland_def
      read_def fresh_def)

lemma geolocation_nowhere:
  "getGeolocation nowhere fresh =
     (Inl network_error, fresh\<lparr>net := [\<lparr>verb = ''get'', url = ''https://ipwhois.app/json/'',
                                  payload = JUndefined, config = JUndefined\<rparr>]\<rparr>)"
  by (simp add: getGeolocation_def axios_get send_def nowhere_def fresh_def)

lemma storage_fresh: "storage fresh k = None"
  by (simp add: fresh_def)

subsection \<open>Calls that unwrap the response\<close>

lemma unwrapped:
  assumes "answers tr w method route headers body r"
  shows "fst (dot_data (request tr method route headers body w)) = read r ''data''"
proof (cases "request_call method route headers body")
  case None
  with assms show ?thesis by (simp add: answers_def)
next
  case (Some c)
  with assms have "tr (net w) c = Fulfilled r" by (simp add: answers_def)
  with Some show ?thesis by (simp add: request_fulfilled dot_data_def)
qed

lemma answers_reads: "answers tr (w\<lparr>reads := x\<rparr>) = answers tr w"
  by (simp add: answers_def fun_eq_iff cong: option.case_cong)

lemma backend_url: "ROOT_PATH @ ''/'' @ route \<noteq> ''https://ipwhois.app/json/''"
  by (simp add: ROOT_PATH_def)

lemma answers_healthy:
  assumes "method \<in> set [''get'', ''delete'', ''post'', ''put'', ''patch'']"
  shows "answers healthy w method route headers body greeting"
proof -
  from assms obtain c where c: "request_call method route headers body = Some c"
    using request_call_verbs by blast
  have "url c \<noteq> ''https://ipwhois.app/json/''"
    using request_call_url [OF c] backend_url [of route] by (simp add: constructEndpoint_def)
  with c show ?thesis by (simp add: answers_def healthy_def)
qed

subsection \<open>The realtime channel\<close>

lemma fire_reads: "reads (fire c event w) = reads w"
proof -
  have "reads (fold (\<lambda>(ev, line) w'. if ev = event then console_log (Plain line) w' else w') ls w) =
        reads w" for ls
    by (induction ls arbitrary: w) (auto simp: console_log_def)
  then show ?thesis by (simp add: fire_def)
qed

lemma occur_reads: "reads (occur tr c x w) = reads w"
  by (cases x) (simp_all add: fire_reads setItem_def login_reads)

lemma occurrences_reads: "reads (fold (occur tr c) xs w) = reads w"
  by (induction xs arbitrary: w) (simp_all add: occur_reads)

section \<open>The request dispatcher\<close>

text \<open>
  C7. For each of the verbs get, delete, post, put and patch and every route, the one call
  that \<open>request\<close> issues goes to the origin, then a single slash, then the route. The
  only double slashes of that URL are those of the origin and of the route, and one more
  exactly when the route itself starts with a slash.
\<close>

theorem request_targets_origin_slash_route:
  assumes "method \<in> set [''get'', ''delete'', ''post'', ''put'', ''patch'']"
  shows "map url (net (snd (request tr method route headers body w))) =
           map url (net w) @ [ROOT_PATH @ ''/'' @ route]
         \<and> double_slashes (ROOT_PATH @ ''/'' @ route) =
           double_slashes ROOT_PATH + double_slashes route +
           (if route \<noteq> [] \<and> hd route = CHR ''/'' then 1 else 0)"
proof -
  from assms obtain c where c: "request_call method route headers body = Some c"
    using request_call_verbs by blast
  have u: "url c = ROOT_PATH @ ''/'' @ route"
    using request_call_url [OF c] by (simp only: constructEndpoint_def)
  have "net (snd (request tr method route headers body w)) = net w @ [c]"
    using c by (rule request_net)
  then have n: "map url (net (snd (request tr method route headers body w))) =
      map url (net w) @ [ROOT_PATH @ ''/'' @ route]"
    using u by simp
  have "double_slashes (ROOT_PATH @ CHR ''/'' # route) =
      double_slashes ROOT_PATH + double_slashes (CHR ''/'' # route)"
    using ROOT_PATH_last by (simp add: double_slashes_append)
  then have d: "double_slashes (ROOT_PATH @ ''/'' @ route) =
      double_slashes ROOT_PATH + double_slashes route +
      (if route \<noteq> [] \<and> hd route = CHR ''/'' then 1 else 0)"
    by (simp add: double_slashes_slash_route)
  from n d show ?thesis by (rule conjI)
qed

theorem request_targets_origin_slash_route_witness:
  "''put'' \<in> set [''get'', ''delete'', ''post'', ''put'', ''patch'']
   \<and> map url (net (snd (request offline ''put'' ''/search/user/x'' JUndefined JUndefined fresh))) =
       [''https://backend.xornet.cloud//search/user/x'']
   \<and> double_slashes ''https://backend.xornet.cloud//search/user/x'' = 2"
  using request_targets_origin_slash_route
          [of "''put''" offline "''/search/user/x''" JUndefined JUndefined fresh]
  by (simp add: ROOT_PATH_def fresh_def)

text \<open>
  C6. A get or delete call through \<open>request\<close> whose body is absent (or falsy in any other
  way) issues one call whose options object is \<^verbatim>\<open>{withCredentials: true, headers}\<close>
  with the caller's headers, and no payload.
\<close>

theorem get_delete_default_options:
  assumes "method = ''get'' \<or> method = ''delete''" and "\<not> truthy body"
  shows "net (snd (request tr method route headers body w)) =
           net w @ [\<lparr>verb = method, url = ROOT_PATH @ ''/'' @ route, payload = JUndefined,
                     config = JObj [(''withCredentials'', JBool True), (''headers'', headers)]\<rparr>]"
proof -
  let ?c = "\<lparr>verb = method, url = ROOT_PATH @ ''/'' @ route, payload = JUndefined,
              config = JObj [(''withCredentials'', JBool True), (''headers'', headers)]\<rparr>"
  have c: "request_call method route headers body = Some ?c"
    using assms(1)
  proof
    assume "method = ''get''"
    then show ?thesis using assms(2) by (simp add: request_call_get js_or_def constructEndpoint_def)
  next
    assume "method = ''delete''"
    then show ?thesis using assms(2) by (simp add: request_call_delete js_or_def constructEndpoint_def)
  qed
  show ?thesis using c by (rule request_net)
qed

theorem get_delete_default_options_witness:
  "(''delete'' = ''get'' \<or> ''delete'' = ''delete'') \<and> \<not> truthy JUndefined
   \<and> net (snd (request healthy ''delete'' ''datacenter/d1/user/u1''
                  (JObj [(''X-Trace'', JStr ''1'')]) JUndefined fresh)) =
       [\<lparr>verb = ''delete'', url = ''https://backend.xornet.cloud/datacenter/d1/user/u1'',
         payload = JUndefined,
         config = JObj [(''withCredentials'', JBool True),
                        (''headers'', JObj [(''X-Trace'', JStr ''1'')])]\<rparr>]"
  using get_delete_default_options
          [of "''delete''" JUndefined healthy "''datacenter/d1/user/u1''"
              "JObj [(''X-Trace'', JStr ''1'')]" fresh]
  by (simp add: ROOT_PATH_def fresh_def)

section \<open>The datacenter calls\<close>

text \<open>
  C8. \<open>fetchMachineCount\<close> with a falsy datacenter identifier resolves with
  \<^verbatim>\<open>undefined\<close> and leaves the world as it was: no network call, no log line, no
  notification, and no rejection.
\<close>

theorem fetchMachineCount_falsy:
  assumes "\<not> truthy datacenter"
  shows "fetchMachineCount tr datacenter w = (Inr JUndefined, w)"
  using assms by (simp add: fetchMachineCount_def)

theorem fetchMachineCount_falsy_witness:
  "\<not> truthy (JStr []) \<and> fetchMachineCount healthy (JStr []) fresh = (Inr JUndefined, fresh)
   \<and> net fresh = []"
  using fetchMachineCount_falsy [of "JStr []" healthy fresh]
  by (simp add: fresh_def)

section \<open>Failure of the underlying call\<close>

text \<open>
  C1, as the code has it. When \<open>request\<close> has a verb to call and the call is rejected,
  \<open>request\<close> does not throw: it resolves, and the value it resolves with is
  \<^verbatim>\<open>undefined\<close>, whatever the error was. The error is handed to \<open>logError\<close> under the
  label \<^verbatim>\<open>VERB route\<close>: the world \<open>request\<close> leaves is the one \<open>logError\<close> leaves
  after the call was issued.
\<close>

theorem request_failure_resolves_undefined:
  assumes "request_call method route headers body = Some c" and "tr (net w) c = Rejected e"
  shows "fst (request tr method route headers body w) = Inr JUndefined
         \<and> snd (request tr method route headers body w) =
             logError (JStr (toUpperCase method @ '' '' @ route)) e (w\<lparr>net := net w @ [c]\<rparr>)"
  using assms by (simp add: request_rejected)

theorem request_failure_resolves_undefined_witness:
  "request_call ''get'' ''datacenter/all'' JUndefined JUndefined =
     Some \<lparr>verb = ''get'', url = ''https://backend.xornet.cloud/datacenter/all'',
            payload = JUndefined,
            config = JObj [(''withCredentials'', JBool True), (''headers'', JUndefined)]\<rparr>
   \<and> offline (net fresh)
        \<lparr>verb = ''get'', url = ''https://backend.xornet.cloud/datacenter/all'',
          payload = JUndefined,
          config = JObj [(''withCredentials'', JBool True), (''headers'', JUndefined)]\<rparr> =
       Rejected network_error
   \<and> fst (request offline ''get'' ''datacenter/all'' JUndefined JUndefined fresh) = Inr JUndefined
   \<and> console (snd (request offline ''get'' ''datacenter/all'' JUndefined JUndefined fresh)) =
       [ApiError (JStr ''GET datacenter/all'') [network_error]]
   \<and> emitted (snd (request offline ''get'' ''datacenter/all'' JUndefined JUndefined fresh)) =
       [(''error'', JObj [(''method'', JStr ''GET datacenter/all''),
                          (''messages'', JArr [network_error])])]"
  using request_failure_resolves_undefined
          [of "''get''" "''datacenter/all''" JUndefined JUndefined
              "\<lparr>verb = ''get'', url = ''https://backend.xornet.cloud/datacenter/all'',
                 payload = JUndefined,
                 config = JObj [(''withCredentials'', JBool True), (''headers'', JUndefined)]\<rparr>"
              offline fresh network_error]
  by (simp add: request_call_get js_or_def constructEndpoint_def ROOT_PATH_def offline_def
        logError_def error_def emit_def console_log_def network_error_def fresh_def
        toUpperCase_get)

text \<open>
  The claim as the spec states it fails: with the network down, a get resolves with
  \<^verbatim>\<open>undefined\<close>, which is not the error object the call was rejected with.
\<close>

theorem request_returns_error_counterexample:
  "fst (request offline ''get'' ''datacenter/all'' JUndefined JUndefined fresh) = Inr JUndefined
   \<and> fst (request offline ''get'' ''datacenter/all'' JUndefined JUndefined fresh) \<noteq> Inr network_error"
  by (simp add: request_def Let_def request_call_get send_def offline_def network_error_def)

text \<open>
  C5. The errors \<^verbatim>\<open>axios\<close> rejects a call with are error objects: truthy, with the
  response, when there is one, under \<^verbatim>\<open>response\<close> and no \<^verbatim>\<open>data\<close> of their own. A
  request that has a verb to call and is rejected with such an error hands the notifier
  exactly one notification, \<^verbatim>\<open>error\<close>, whose payload is the method name
  \<^verbatim>\<open>VERB route\<close> and the one-element array of the error object. A request whose call
  is fulfilled hands it none.
\<close>

theorem request_broadcasts_once:
  assumes "request_call method route headers body = Some c"
  shows "(tr (net w) c = Rejected e \<and> truthy e \<and> \<not> truthy (member e ''data'') \<longrightarrow>
            emitted (snd (request tr method route headers body w)) =
              emitted w @
              [(''error'', JObj [(''method'', JStr (toUpperCase method @ '' '' @ route)),
                                 (''messages'', JArr [e])])])
         \<and> (tr (net w) c = Fulfilled r \<longrightarrow>
               emitted (snd (request tr method route headers body w)) = emitted w)"
proof (intro conjI impI)
  assume "tr (net w) c = Rejected e \<and> truthy e \<and> \<not> truthy (member e ''data'')"
  then have rej: "tr (net w) c = Rejected e" and e: "truthy e" and d: "\<not> truthy (member e ''data'')"
    by simp_all
  have m: "\<not> truthy (member (member e ''data'') ''message'')"
    using d by (cases "member e ''data''") simp_all
  from assms rej e d m
  show "emitted (snd (request tr method route headers body w)) =
          emitted w @
          [(''error'', JObj [(''method'', JStr (toUpperCase method @ '' '' @ route)),
                             (''messages'', JArr [e])])]"
    by (simp add: request_rejected logError_emitted)
next
  assume "tr (net w) c = Fulfilled r"
  with assms show "emitted (snd (request tr method route headers body w)) = emitted w"
    by (simp add: request_fulfilled logResponse_frame)
qed

theorem request_broadcasts_once_witness:
  "request_call ''post'' ''login'' JUndefined (JObj []) =
     Some \<lparr>verb = ''post'', url = ''https://backend.xornet.cloud/login'', payload = JObj [],
            config = JObj [(''withCredentials'', JBool True), (''headers'', JUndefined)]\<rparr>
   \<and> truthy refusal \<and> \<not> truthy (member refusal ''data'')
   \<and> emitted (snd (request refusing ''post'' ''login'' JUndefined (JObj []) fresh)) =
       [(''error'', JObj [(''method'', JStr ''POST login''), (''messages'', JArr [refusal])])]
   \<and> emitted (snd (request healthy ''post'' ''login'' JUndefined (JObj []) fresh)) = []"
  using request_broadcasts_once
          [of "''post''" "''login''" JUndefined "JObj []"
              "\<lparr>verb = ''post'', url = ''https://backend.xornet.cloud/login'', payload = JObj [],
                 config = JObj [(''withCredentials'', JBool True), (''headers'', JUndefined)]\<rparr>"
              refusing fresh refusal]
        request_broadcasts_once
          [of "''post''" "''login''" JUndefined "JObj []"
              "\<lparr>verb = ''post'', url = ''https://backend.xornet.cloud/login'', payload = JObj [],
                 config = JObj [(''withCredentials'', JBool True), (''headers'', JUndefined)]\<rparr>"
              healthy fresh _ greeting]
  by (simp add: request_call_post js_or_def constructEndpoint_def ROOT_PATH_def refusing_def
        healthy_def fresh_def refusal_def toUpperCase_post)

section \<open>Login and signup\<close>

text \<open>
  C2. \<open>login\<close> is documented to take the credentials as an object, as \<open>signup\<close> is,
  and \<open>signup\<close> spreads the object it is given; \<open>login\<close> applies \<^verbatim>\<open>JSON.parse\<close>
  to it first. Given the object \<^verbatim>\<open>{username: "a", password: "b"}\<close>, with the
  geolocation service and the backend both answering, \<^verbatim>\<open>JSON.parse\<close> throws: the
  promise rejects with \<^verbatim>\<open>undefined\<close>, nothing is stored, and the only call issued
  is the geolocation lookup. \<open>signup\<close> with the same object posts it and resolves.
\<close>

theorem login_object_argument_rejected:
  "fst (login healthy credentials fresh) = Some (Inl JUndefined)
   \<and> storage (snd (login healthy credentials fresh)) ''token'' = None
   \<and> storage (snd (login healthy credentials fresh)) ''username'' = None
   \<and> map url (net (snd (login healthy credentials fresh))) = [''https://ipwhois.app/json/'']
   \<and> fst (signup healthy credentials fresh) = Inr greeting"
proof -
  have l: "fst (login healthy credentials fresh) = Some (Inl JUndefined)
   \<and> storage (snd (login healthy credentials fresh)) ''token'' = None
   \<and> storage (snd (login healthy credentials fresh)) ''username'' = None
   \<and> map url (net (snd (login healthy credentials fresh))) = [''https://ipwhois.app/json/'']"
    by (simp add: login_def geolocation_healthy parse_credentials login_catch_def log_def
        console_log_def Let_def SyntaxError_def storage_fresh)
  have b: "healthy (net (fresh\<lparr>net := [\<lparr>verb = ''get'', url = ''https://ipwhois.app/json/'',
                                  payload = JUndefined, config = JUndefined\<rparr>]\<rparr>))
          \<lparr>verb = ''post'', url = ROOT_PATH @ ''/'' @ ''signup'',
            payload = JObj (spread credentials [(''geolocation'', iceland)]),
            config = JObj [(''withCredentials'', JBool True),
                           (''headers'', JObj [(''Content-Type'', JStr ''application/json'')])]\<rparr> =
       Fulfilled greeting"
    by (simp add: healthy_def ROOT_PATH_def)
  note q = request_post_fulfilled [of healthy _ "''signup''" _ _ greeting, OF b]
  have "fst (signup healthy credentials fresh) = Inr greeting"
    by (simp add: signup_def geolocation_healthy q)
  with l show ?thesis by simp
qed

text \<open>
  C3. The backend refuses the login with HTTP 401: the call is rejected with an error that
  carries the status. \<open>request\<close> resolves with \<^verbatim>\<open>undefined\<close>, reading \<^verbatim>\<open>.data\<close>
  of it throws a TypeError, and the \<^verbatim>\<open>catch\<close> block rejects with the \<^verbatim>\<open>status\<close> of
  that TypeError, which is \<^verbatim>\<open>undefined\<close>, not 401.
\<close>

theorem login_rejects_without_status:
  "member refusal ''status'' = JNum 401
   \<and> fst (login refusing credentials_text fresh) = Some (Inl JUndefined)
   \<and> fst (login refusing credentials_text fresh) \<noteq> Some (Inl (JNum 401))"
proof -
  have b: "refusing (net (fresh\<lparr>net := [\<lparr>verb = ''get'', url = ''https://ipwhois.app/json/'',
                                  payload = JUndefined, config = JUndefined\<rparr>]\<rparr>))
          \<lparr>verb = ''post'', url = ROOT_PATH @ ''/'' @ ''login'',
            payload = JObj (spread credentials [(''geolocation'', iceland)]),
            config = JObj [(''withCredentials'', JBool True),
                           (''headers'', JObj [(''Content-Type'', JStr ''application/json'')])]\<rparr> =
       Rejected refusal"
    by (simp add: refusing_def ROOT_PATH_def)
  note q = request_post_rejected [of refusing _ "''login''" _ _ refusal, OF b]
  have "fst (login refusing credentials_text fresh) = Some (Inl JUndefined)"
    by (simp add: login_def geolocation_refusing parse_credentials_text q Let_def read_def
        login_catch_def TypeError_def)
  then show ?thesis by (simp add: refusal_def)
qed

text \<open>
  C4, as the code has it. When the geolocation lookup succeeds and the backend fulfils the
  post to \<^verbatim>\<open>signup\<close> with a response, \<open>signup\<close> resolves with that response itself,
  status and data. The calls \<open>fetchAll\<close>, \<open>fetchMachineCount\<close>, \<open>fetch\<close>,
  \<open>revokeMember\<close>, \<open>addMember\<close>, the datacenter's \<open>addMachine\<close>, \<open>fetchProfile\<close>,
  \<open>fetchMe\<close>, \<open>fetchLogs\<close>, the user's \<open>save\<close> and \<open>addMachine\<close>, \<open>search\<close>,
  \<open>getNetwork\<close>, \<open>getMachineSpecs\<close> and \<open>getProcesses\<close> unwrap: each resolves with
  the \<^verbatim>\<open>data\<close> of the response its request is fulfilled with.
\<close>

theorem signup_returns_full_response:
  "(getGeolocation tr w = (Inr g, w1) \<and>
    tr (net w1)
       \<lparr>verb = ''post'', url = ROOT_PATH @ ''/'' @ ''signup'',
         payload = JObj (spread json [(''geolocation'', g)]),
         config = JObj [(''withCredentials'', JBool True),
                        (''headers'', JObj [(''Content-Type'', JStr ''application/json'')])]\<rparr> =
      Fulfilled response \<longrightarrow>
    fst (signup tr json w) = Inr response)
   \<and> (answers tr w ''get'' ''datacenter/all'' JUndefined JUndefined r \<longrightarrow>
        fst (fetchAll tr w) = read r ''data'')
   \<and> (truthy datacenter \<and>
        answers tr w ''get'' (''datacenter/'' @ toString datacenter @ ''/machine/count'')
          JUndefined JUndefined r \<longrightarrow>
        fst (fetchMachineCount tr datacenter w) = read r ''data'')
   \<and> (answers tr w ''get'' (''datacenter/'' @ toString datacenter) JUndefined JUndefined r \<longrightarrow>
        fst (fetch tr datacenter w) = read r ''data'')
   \<and> (answers tr w ''delete'' (''datacenter/'' @ toString datacenter @ ''/user/'' @ toLowerCase user)
          JUndefined JUndefined r \<longrightarrow>
        fst (revokeMember tr datacenter (JStr user) w) = read r ''data'')
   \<and> (answers tr w ''put'' (''datacenter/'' @ toString datacenter @ ''/user/'' @ toLowerCase user)
          JUndefined JUndefined r \<longrightarrow>
        fst (addMember tr datacenter (JStr user) w) = read r ''data'')
   \<and> (answers tr w ''put'' (''datacenter/'' @ toString datacenter @ ''/machine/'' @ toLowerCase machine)
          JUndefined JUndefined r \<longrightarrow>
        fst (Datacenter_addMachine tr datacenter (JStr machine) w) = read r ''data'')
   \<and> (answers tr w ''get'' (''profile/'' @ toString username) JUndefined JUndefined r \<longrightarrow>
        fst (fetchProfile tr username w) = read r ''data'')
   \<and> (answers tr w ''get'' (''profile/'' @ toString (fst (getItem ''username'' w)))
          JUndefined JUndefined r \<longrightarrow>
        fst (fetchMe tr w) = read r ''data'')
   \<and> (truthy machineUUID \<and>
        answers tr w ''get'' (''logs/'' @ toString machineUUID) JUndefined JUndefined r \<longrightarrow>
        fst (fetchLogs tr machineUUID w) = read r ''data'')
   \<and> (\<not> truthy machineUUID \<and> answers tr w ''get'' ''logs'' JUndefined JUndefined r \<longrightarrow>
        fst (fetchLogs tr machineUUID w) = read r ''data'')
   \<and> (\<not> nullish profile \<and>
        answers tr w ''patch'' ''profile'' (JObj [(''Content-Type'', JStr ''multipart/form-data'')])
          (JObj [(''json'', JSON_stringify (JObj [(''bio'', member profile ''bio''),
                                                  (''socials'', member profile ''socials''),
                                                  (''badges'', member profile ''badges''),
                                                  (''email'', member profile ''email'')])),
                 (''image'', profileImage), (''banner'', profileBanner)]) r \<longrightarrow>
        fst (User_save tr profile profileImage profileBanner w) = read r ''data'')
   \<and> (answers tr w ''put'' ''profile/machine'' (JObj [(''Content-Type'', JStr ''application/json'')])
          (JObj [(''machine'', machineUUID)]) r \<longrightarrow>
        fst (User_addMachine tr machineUUID w) = read r ''data'')
   \<and> (answers tr w ''get'' (''/search/user/'' @ toString user') JUndefined JUndefined r \<longrightarrow>
        fst (search tr user' w) = read r ''data'')
   \<and> (answers tr w ''get'' (''stats/network/'' @ toString machineUUID) JUndefined JUndefined r \<longrightarrow>
        fst (getNetwork tr machineUUID w) = read r ''data'')
   \<and> (answers tr w ''get'' (''stats/machine/'' @ toString machineUUID) JUndefined JUndefined r \<longrightarrow>
        fst (getMachineSpecs tr machineUUID w) = read r ''data'')
   \<and> (answers tr w ''get'' (''stats/processes/'' @ toString machineUUID) JUndefined JUndefined r \<longrightarrow>
        fst (getProcesses tr machineUUID w) = read r ''data'')"
proof -
  have s: "getGeolocation tr w = (Inr g, w1) \<and>
    tr (net w1)
       \<lparr>verb = ''post'', url = ROOT_PATH @ ''/'' @ ''signup'',
         payload = JObj (spread json [(''geolocation'', g)]),
         config = JObj [(''withCredentials'', JBool True),
                        (''headers'', JObj [(''Content-Type'', JStr ''application/json'')])]\<rparr> =
      Fulfilled response \<longrightarrow>
    fst (signup tr json w) = Inr response"
  proof (intro impI, elim conjE)
    assume geo: "getGeolocation tr w = (Inr g, w1)"
    assume backend: "tr (net w1)
       \<lparr>verb = ''post'', url = ROOT_PATH @ ''/'' @ ''signup'',
         payload = JObj (spread json [(''geolocation'', g)]),
         config = JObj [(''withCredentials'', JBool True),
                        (''headers'', JObj [(''Content-Type'', JStr ''application/json'')])]\<rparr> =
      Fulfilled response"
    note q = request_post_fulfilled [of tr w1 "''signup''" _ _ response, OF backend]
    show "fst (signup tr json w) = Inr response"
      using geo by (simp add: signup_def q)
  qed
  have a1: "answers tr w ''get'' ''datacenter/all'' JUndefined JUndefined r \<longrightarrow>
        fst (fetchAll tr w) = read r ''data''"
    by (simp add: fetchAll_def unwrapped)
  have a2: "truthy datacenter \<and>
        answers tr w ''get'' (''datacenter/'' @ toString datacenter @ ''/machine/count'')
          JUndefined JUndefined r \<longrightarrow>
        fst (fetchMachineCount tr datacenter w) = read r ''data''"
    by (simp add: fetchMachineCount_def unwrapped)
  have a3: "answers tr w ''get'' (''datacenter/'' @ toString datacenter) JUndefined JUndefined r \<longrightarrow>
        fst (fetch tr datacenter w) = read r ''data''"
    by (simp add: fetch_def unwrapped)
  have a4: "answers tr w ''delete'' (''datacenter/'' @ toString datacenter @ ''/user/'' @ toLowerCase user)
          JUndefined JUndefined r \<longrightarrow>
        fst (revokeMember tr datacenter (JStr user) w) = read r ''data''"
    by (simp add: revokeMember_def unwrapped)
  have a5: "answers tr w ''put'' (''datacenter/'' @ toString datacenter @ ''/user/'' @ toLowerCase user)
          JUndefined JUndefined r \<longrightarrow>
        fst (addMember tr datacenter (JStr user) w) = read r ''data''"
    by (simp add: addMember_def unwrapped)
  have a6: "answers tr w ''put'' (''datacenter/'' @ toString datacenter @ ''/machine/'' @ toLowerCase machine)
          JUndefined JUndefined r \<longrightarrow>
        fst (Datacenter_addMachine tr datacenter (JStr machine) w) = read r ''data''"
    by (simp add: Datacenter_addMachine_def unwrapped)
  have a7: "answers tr w ''get'' (''profile/'' @ toString username) JUndefined JUndefined r \<longrightarrow>
        fst (fetchProfile tr username w) = read r ''data''"
    by (simp add: fetchProfile_def unwrapped)
  have a8: "answers tr w ''get'' (''profile/'' @ toString (fst (getItem ''username'' w)))
          JUndefined JUndefined r \<longrightarrow>
        fst (fetchMe tr w) = read r ''data''"
    by (simp add: fetchMe_def getItem_def unwrapped answers_reads)
  have a9: "truthy machineUUID \<and>
        answers tr w ''get'' (''logs/'' @ toString machineUUID) JUndefined JUndefined r \<longrightarrow>
        fst (fetchLogs tr machineUUID w) = read r ''data''"
    by (simp add: fetchLogs_def unwrapped)
  have a10: "\<not> truthy machineUUID \<and> answers tr w ''get'' ''logs'' JUndefined JUndefined r \<longrightarrow>
        fst (fetchLogs tr machineUUID w) = read r ''data''"
    by (simp add: fetchLogs_def unwrapped)
  have a11: "\<not> nullish profile \<and>
        answers tr w ''patch'' ''profile'' (JObj [(''Content-Type'', JStr ''multipart/form-data'')])
          (JObj [(''json'', JSON_stringify (JObj [(''bio'', member profile ''bio''),
                                                  (''socials'', member profile ''socials''),
                                                  (''badges'', member profile ''badges''),
                                                  (''email'', member profile ''email'')])),
                 (''image'', profileImage), (''banner'', profileBanner)]) r \<longrightarrow>
        fst (User_save tr profile profileImage profileBanner w) = read r ''data''"
    by (simp add: User_save_def Let_def unwrapped)
  have a12: "answers tr w ''put'' ''profile/machine'' (JObj [(''Content-Type'', JStr ''application/json'')])
          (JObj [(''machine'', machineUUID)]) r \<longrightarrow>
        fst (User_addMachine tr machineUUID w) = read r ''data''"
    by (simp add: User_addMachine_def unwrapped)
  have a13: "answers tr w ''get'' (''/search/user/'' @ toString user') JUndefined JUndefined r \<longrightarrow>
        fst (search tr user' w) = read r ''data''"
    by (simp add: search_def unwrapped)
  have a14: "answers tr w ''get'' (''stats/network/'' @ toString machineUUID) JUndefined JUndefined r \<longrightarrow>
        fst (getNetwork tr machineUUID w) = read r ''data''"
    by (simp add: getNetwork_def unwrapped)
  have a15: "answers tr w ''get'' (''stats/machine/'' @ toString machineUUID) JUndefined JUndefined r \<longrightarrow>
        fst (getMachineSpecs tr machineUUID w) = read r ''data''"
    by (simp add: getMachineSpecs_def unwrapped)
  have a16: "answers tr w ''get'' (''stats/processes/'' @ toString machineUUID) JUndefined JUndefined r \<longrightarrow>
        fst (getProcesses tr machineUUID w) = read r ''data''"
    by (simp add: getProcesses_def unwrapped)
  show ?thesis
    by (intro conjI s a1 a2 a3 a4 a5 a6 a7 a8 a9 a10 a11 a12 a13 a14 a15 a16)
qed

theorem signup_returns_full_response_witness:
  "fst (signup healthy credentials fresh) = Inr greeting
   \<and> member greeting ''status'' = JNum 200
   \<and> member greeting ''data'' \<noteq> greeting
   \<and> fst (fetchAll healthy fresh) = Inr (member greeting ''data'')
   \<and> fst (fetchMachineCount healthy (JStr ''d1'') fresh) = Inr (member greeting ''data'')
   \<and> fst (fetch healthy (JStr ''d1'') fresh) = Inr (member greeting ''data'')
   \<and> fst (revokeMember healthy (JStr ''d1'') (JStr ''U1'') fresh) = Inr (member greeting ''data'')
   \<and> fst (addMember healthy (JStr ''d1'') (JStr ''U1'') fresh) = Inr (member greeting ''data'')
   \<and> fst (Datacenter_addMachine healthy (JStr ''d1'') (JStr ''M1'') fresh) = Inr (member greeting ''data'')
   \<and> fst (fetchProfile healthy (JStr ''a'') fresh) = Inr (member greeting ''data'')
   \<and> fst (fetchMe healthy fresh) = Inr (member greeting ''data'')
   \<and> fst (fetchLogs healthy (JStr ''m1'') fresh) = Inr (member greeting ''data'')
   \<and> fst (fetchLogs healthy JUndefined fresh) = Inr (member greeting ''data'')
   \<and> fst (User_save healthy (JObj [(''bio'', JStr ''hi'')]) JNull JNull fresh) = Inr (member greeting ''data'')
   \<and> fst (User_addMachine healthy (JStr ''m1'') fresh) = Inr (member greeting ''data'')
   \<and> fst (search healthy (JStr ''a'') fresh) = Inr (member greeting ''data'')
   \<and> fst (getNetwork healthy (JStr ''m1'') fresh) = Inr (member greeting ''data'')
   \<and> fst (getMachineSpecs healthy (JStr ''m1'') fresh) = Inr (member greeting ''data'')
   \<and> fst (getProcesses healthy (JStr ''m1'') fresh) = Inr (member greeting ''data'')"
proof -
  have b: "healthy (net (fresh\<lparr>net := [\<lparr>verb = ''get'', url = ''https://ipwhois.app/json/'',
                                  payload = JUndefined, config = JUndefined\<rparr>]\<rparr>))
          \<lparr>verb = ''post'', url = ROOT_PATH @ ''/'' @ ''signup'',
            payload = JObj (spread credentials [(''geolocation'', iceland)]),
            config = JObj [(''withCredentials'', JBool True),
                           (''headers'', JObj [(''Content-Type'', JStr ''application/json'')])]\<rparr> =
       Fulfilled greeting"
    by (simp add: healthy_def ROOT_PATH_def)
  have g: "read greeting ''data'' = Inr (member greeting ''data'')"
    "member greeting ''status'' = JNum 200" "member greeting ''data'' \<noteq> greeting"
    by (simp_all add: read_def greeting_def)
  show ?thesis
    using signup_returns_full_response
      [where tr = healthy and w = fresh and g = iceland and json = credentials
         and ?w1.0 = "fresh\<lparr>net := [\<lparr>verb = ''get'', url = ''https://ipwhois.app/json/'',
                                      payload = JUndefined, config = JUndefined\<rparr>]\<rparr>"
         and response = greeting and r = greeting
         and datacenter = "JStr ''d1''" and user = "''U1''" and machine = "''M1''"
         and username = "JStr ''a''" and machineUUID = "JStr ''m1''"
         and profile = "JObj [(''bio'', JStr ''hi'')]" and profileImage = JNull
         and profileBanner = JNull and user' = "JStr ''a''"]
      signup_returns_full_response
      [where tr = healthy and w = fresh and r = greeting and machineUUID = JUndefined]
      geolocation_healthy b
    by (simp add: answers_healthy g)
qed

text \<open>
  The claim as the spec states it fails. When the backend refuses, \<open>signup\<close> resolves
  with \<^verbatim>\<open>undefined\<close>, not with a response carrying status and data; when the
  geolocation service is unreachable it rejects. And \<open>signup\<close> is not the only call that
  returns the response whole: \<open>add\<close> does too.
\<close>

theorem signup_counterexample:
  "fst (signup refusing credentials fresh) = Inr JUndefined
   \<and> fst (signup nowhere credentials fresh) = Inl network_error
   \<and> fst (add healthy credentials fresh) = Inr greeting"
proof -
  have b: "refusing (net (fresh\<lparr>net := [\<lparr>verb = ''get'', url = ''https://ipwhois.app/json/'',
                                  payload = JUndefined, config = JUndefined\<rparr>]\<rparr>))
          \<lparr>verb = ''post'', url = ROOT_PATH @ ''/'' @ ''signup'',
            payload = JObj (spread credentials [(''geolocation'', iceland)]),
            config = JObj [(''withCredentials'', JBool True),
                           (''headers'', JObj [(''Content-Type'', JStr ''application/json'')])]\<rparr> =
       Rejected refusal"
    by (simp add: refusing_def ROOT_PATH_def)
  note q = request_post_rejected [of refusing _ "''signup''" _ _ refusal, OF b]
  have 1: "fst (signup refusing credentials fresh) = Inr JUndefined"
    by (simp add: signup_def geolocation_refusing q)
  have 2: "fst (signup nowhere credentials fresh) = Inl network_error"
    by (simp add: signup_def geolocation_nowhere)
  have "request healthy ''post'' ''datacenter/new''
          (JObj [(''Content-Type'', JStr ''application/json'')])
          (JObj [(''username'', JStr ''a''), (''password'', JStr ''b'')]) fresh =
        (Inr greeting, logResponse (JStr (toUpperCase ''post'' @ '' '' @ ''datacenter/new'')) greeting
                         (fresh\<lparr>net := net fresh @
                            [\<lparr>verb = ''post'', url = ROOT_PATH @ ''/'' @ ''datacenter/new'',
                              payload = JObj [(''username'', JStr ''a''), (''password'', JStr ''b'')],
                              config = JObj [(''withCredentials'', JBool True),
                                             (''headers'', JObj [(''Content-Type'', JStr ''application/json'')])]\<rparr>]\<rparr>))"
    by (rule request_post_fulfilled) (simp add: healthy_def ROOT_PATH_def)
  then have 3: "fst (add healthy credentials fresh) = Inr greeting"
    by (simp add: add_def credentials_def)
  from 1 2 3 show ?thesis by simp
qed

section \<open>The realtime channel's token\<close>

text \<open>
  C9. Loading \<^verbatim>\<open>socket.js\<close> reads \<^verbatim>\<open>token\<close> from storage once. The
  authentication payload of the channel it builds is \<^verbatim>\<open>{type: "client", token}\<close> with
  the value read then (\<^verbatim>\<open>null\<close> when nothing was stored). Whatever happens afterwards
  (events delivered to the channel's listeners, writes to storage, logins), storage is not
  read again; the payload is a value fixed at load time, so a token stored later is not in
  it.
\<close>

theorem socket_reads_token_once:
  "reads (snd (socket w)) = reads w @ [''token'']
   \<and> handshake (fst (socket w)) =
       JObj [(''type'', JStr ''client''),
             (''token'', case storage w ''token'' of None \<Rightarrow> JNull | Some t \<Rightarrow> JStr t)]
   \<and> reads (fold (occur tr (fst (socket w))) xs (snd (socket w))) = reads w @ [''token'']"
proof -
  have l: "reads (snd (socket w)) = reads w @ [''token'']"
    by (simp add: socket_def getItem_def)
  have h: "handshake (fst (socket w)) =
       JObj [(''type'', JStr ''client''),
             (''token'', case storage w ''token'' of None \<Rightarrow> JNull | Some t \<Rightarrow> JStr t)]"
    by (simp add: socket_def getItem_def handshake_def on_def io_def)
  have "reads (fold (occur tr (fst (socket w))) xs (snd (socket w))) = reads (snd (socket w))"
    by (rule occurrences_reads)
  with l h show ?thesis by simp
qed

theorem socket_reads_token_once_witness:
  "handshake (fst (socket returning)) = JObj [(''type'', JStr ''client''), (''token'', JStr ''old'')]
   \<and> storage (fold (occur healthy (fst (socket returning)))
                 [Fired ''connect'', Stored ''token'' (JStr ''new''), Fired ''disconnect'',
                  Fired ''connect'']
                 (snd (socket returning))) ''token'' = Some ''new''
   \<and> reads (fold (occur healthy (fst (socket returning)))
                 [Fired ''connect'', Stored ''token'' (JStr ''new''), Fired ''disconnect'',
                  Fired ''connect'']
                 (snd (socket returning))) = [''token'']"
proof -
  have s: "storage (fold (occur healthy (fst (socket returning)))
                 [Fired ''connect'', Stored ''token'' (JStr ''new''), Fired ''disconnect'',
                  Fired ''connect'']
                 (snd (socket returning))) ''token'' = Some ''new''"
    by (simp add: socket_def getItem_def on_def io_def fire_def console_log_def setItem_def
        returning_def)
  show ?thesis
    using s socket_reads_token_once [of returning healthy
        "[Fired ''connect'', Stored ''token'' (JStr ''new''), Fired ''disconnect'', Fired ''connect'']"]
    by (simp add: returning_def)
qed

end
